theory Spec2Isabelle
  imports Main
begin

section \<open>SynCode: room replication server and editor client\<close>

text \<open>
  The server (the TypeScript program that follows the README) keeps two maps,
  \<open>rooms\<close> and \<open>socketRoomMap\<close>, and talks to its clients through the
  socket.io transport. Every handler is a callback that runs to completion;
  it is modelled as a function from the state before to the state after,
  paired with the list of messages it makes the transport deliver.

  The transport is not part of the program; it is modelled as socket.io 4
  implements the five primitives that the server uses,
  \<open>socket.join(r)\<close>, \<open>io.sockets.adapter.rooms.get(r)\<close>, \<open>io.to(r).emit\<close>,
  \<open>socket.to(r).emit\<close> and \<open>socket.emit\<close>. They all work on one table of
  groups keyed by strings (\<open>adapter_rooms\<close> below). A connected socket is a
  member of the group keyed by its own id, which is what makes
  \<open>io.to(socket.id)\<close> reach it; \<open>socket.join(r)\<close> adds it to the group keyed
  \<open>r\<close>; a socket that disconnects has left every group by the time its
  \<open>disconnect\<close> handler runs; a group without members does not exist.
  \<open>io.to(r).emit\<close> reaches the members of the group keyed \<open>r\<close>,
  and \<open>socket.emit\<close> reaches the socket. \<open>socket.to(r).emit\<close> is a
  broadcast to the group keyed \<open>r\<close> with the group keyed by the id of the
  socket as the excepted room: it reaches the members of the first group that
  are not members of the second. The socket itself is a member of the second
  group while it is connected, and so is every socket that has joined a room
  with that id as its key. Members are kept in insertion order, as a
  JavaScript \<open>Set\<close> keeps them.
\<close>

subsection \<open>Data\<close>

type_synonym sid = string
type_synonym rid = string
type_synonym signal = string
type_synonym delta = string

record RoomData =
  code :: string
  language :: string
  "output" :: "string list"

text \<open>Messages a client sends (\<open>socket.emit\<close> on the client).\<close>

datatype client_msg =
    Join_room rid
  | Request_users rid
  | Sending_signal sid sid signal
  | Returning_signal signal sid
  | Code_change rid string "delta option"
  | Language_change rid string
  | Output_change rid "string list"
  | Leave_room

text \<open>Messages the server sends.\<close>

datatype server_msg =
    User_count nat
  | Sync_state RoomData
  | All_users "sid list"
  | User_joined signal sid
  | Receiving_returned_signal signal sid
  | Receive_code string "delta option"
  | Receive_language string
  | Receive_output "string list"
  | User_left sid

type_synonym delivery = "sid \<times> server_msg"

record server =
  rooms :: "rid \<rightharpoonup> RoomData"
  socketRoomMap :: "sid \<rightharpoonup> rid"
  adapter_rooms :: "rid \<rightharpoonup> sid list"
  timers :: "(sid \<times> rid) list"

text \<open>
  \<open>timers\<close> holds the callbacks that \<open>disconnect\<close> handlers have passed to
  \<open>setTimeout(..., 100)\<close> and that have not run yet, oldest first: each is
  determined by the socket id and the room id its closure captured. All have
  the same delay, so they run in the order they were scheduled.
\<close>

definition init :: server where
  "init = \<lparr>rooms = Map.empty, socketRoomMap = Map.empty,
           adapter_rooms = Map.empty, timers = []\<rparr>"

definition default_room :: RoomData where
  "default_room =
     \<lparr>code = ''// Welcome to SyncCode'' @ [CHR 0x0A] @
              ''// Select a language and start typing...'',
      language = ''javascript'',
      output = [''Ready to execute...'']\<rparr>"

subsection \<open>The transport primitives\<close>

text \<open>\<open>Array.from(io.sockets.adapter.rooms.get(r) || [])\<close>\<close>

definition members :: "server \<Rightarrow> rid \<Rightarrow> sid list" where
  "members s r = (case adapter_rooms s r of None \<Rightarrow> [] | Some xs \<Rightarrow> xs)"

definition connected :: "server \<Rightarrow> sid \<Rightarrow> bool" where
  "connected s c = (c \<in> set (members s c))"

definition socket_join :: "server \<Rightarrow> sid \<Rightarrow> rid \<Rightarrow> server" where
  "socket_join s c r =
     s\<lparr>adapter_rooms := (adapter_rooms s)
          (r \<mapsto> (if c \<in> set (members s r) then members s r else members s r @ [c]))\<rparr>"

definition leave_all :: "server \<Rightarrow> sid \<Rightarrow> server" where
  "leave_all s c =
     s\<lparr>adapter_rooms := (\<lambda>r. case adapter_rooms s r of
          None \<Rightarrow> None
        | Some xs \<Rightarrow> (if removeAll c xs = [] then None else Some (removeAll c xs)))\<rparr>"

definition io_to :: "server \<Rightarrow> rid \<Rightarrow> server_msg \<Rightarrow> delivery list" where
  "io_to s r m = map (\<lambda>x. (x, m)) (members s r)"

definition socket_to :: "server \<Rightarrow> sid \<Rightarrow> rid \<Rightarrow> server_msg \<Rightarrow> delivery list" where
  "socket_to s c r m =
     map (\<lambda>x. (x, m)) (filter (\<lambda>x. x \<notin> set (members s c)) (members s r))"

definition socket_emit :: "sid \<Rightarrow> server_msg \<Rightarrow> delivery list" where
  "socket_emit c m = [(c, m)]"

subsection \<open>The handlers of the server\<close>

definition on_join_room :: "server \<Rightarrow> sid \<Rightarrow> rid \<Rightarrow> server \<times> delivery list" where
  "on_join_room s c roomId =
     (let s1 = socket_join s c roomId;
          s2 = s1\<lparr>socketRoomMap := (socketRoomMap s1)(c \<mapsto> roomId)\<rparr>;
          clients = members s2 roomId;
          out1 = io_to s2 roomId (User_count (length clients));
          s3 = (if rooms s2 roomId = None
                then s2\<lparr>rooms := (rooms s2)(roomId \<mapsto> default_room)\<rparr>
                else s2);
          roomData = the (rooms s3 roomId)
      in (s3, out1 @ io_to s3 c (Sync_state roomData)))"

definition on_request_users :: "server \<Rightarrow> sid \<Rightarrow> rid \<Rightarrow> server \<times> delivery list" where
  "on_request_users s c roomId =
     (let clients = members s roomId;
          others = filter (\<lambda>x. x \<noteq> c) clients
      in (s, socket_emit c (All_users others)))"

definition on_sending_signal ::
  "server \<Rightarrow> sid \<Rightarrow> sid \<Rightarrow> sid \<Rightarrow> signal \<Rightarrow> server \<times> delivery list" where
  "on_sending_signal s c userToSignal callerID sig =
     (s, io_to s userToSignal (User_joined sig callerID))"

definition on_returning_signal ::
  "server \<Rightarrow> sid \<Rightarrow> signal \<Rightarrow> sid \<Rightarrow> server \<times> delivery list" where
  "on_returning_signal s c sig callerID =
     (s, io_to s callerID (Receiving_returned_signal sig c))"

definition on_code_change ::
  "server \<Rightarrow> sid \<Rightarrow> rid \<Rightarrow> string \<Rightarrow> delta option \<Rightarrow> server \<times> delivery list" where
  "on_code_change s c roomId cd dl =
     (case rooms s roomId of
        None \<Rightarrow> (s, [])
      | Some rd \<Rightarrow>
          (s\<lparr>rooms := (rooms s)(roomId \<mapsto> rd\<lparr>code := cd\<rparr>)\<rparr>,
           socket_to s c roomId (Receive_code cd dl)))"

definition on_language_change ::
  "server \<Rightarrow> sid \<Rightarrow> rid \<Rightarrow> string \<Rightarrow> server \<times> delivery list" where
  "on_language_change s c roomId lang =
     (case rooms s roomId of
        None \<Rightarrow> (s, [])
      | Some rd \<Rightarrow>
          (s\<lparr>rooms := (rooms s)(roomId \<mapsto> rd\<lparr>language := lang\<rparr>)\<rparr>,
           socket_to s c roomId (Receive_language lang)))"

definition on_output_change ::
  "server \<Rightarrow> sid \<Rightarrow> rid \<Rightarrow> string list \<Rightarrow> server \<times> delivery list" where
  "on_output_change s c roomId out =
     (case rooms s roomId of
        None \<Rightarrow> (s, [])
      | Some rd \<Rightarrow>
          (s\<lparr>rooms := (rooms s)(roomId \<mapsto> rd\<lparr>output := out\<rparr>)\<rparr>,
           socket_to s c roomId (Receive_output out)))"

text \<open>
  The \<open>disconnect\<close> handler. \<open>if (roomId)\<close> is a truthiness test: it
  fails for a missing entry and for the empty string.
\<close>

definition on_disconnect :: "server \<Rightarrow> sid \<Rightarrow> server" where
  "on_disconnect s c =
     (case socketRoomMap s c of
        None \<Rightarrow> s
      | Some roomId \<Rightarrow>
          (if roomId = [] then s
           else s\<lparr>socketRoomMap := (socketRoomMap s)(c := None),
                  timers := timers s @ [(c, roomId)]\<rparr>))"

text \<open>The callback given to \<open>setTimeout\<close>, for socket \<open>c\<close> and room \<open>roomId\<close>.\<close>

definition on_timeout :: "server \<Rightarrow> sid \<Rightarrow> rid \<Rightarrow> server \<times> delivery list" where
  "on_timeout s c roomId =
     (let count = length (members s roomId);
          out = io_to s roomId (User_count count) @ socket_to s c roomId (User_left c)
      in (if count = 0 then s\<lparr>rooms := (rooms s)(roomId := None)\<rparr> else s, out))"

text \<open>
  The handlers registered on a socket. No \<open>socket.on("leave_room", ...)\<close>
  exists, so that message finds no handler.
\<close>

fun dispatch :: "server \<Rightarrow> sid \<Rightarrow> client_msg \<Rightarrow> server \<times> delivery list" where
  "dispatch s c (Join_room roomId) = on_join_room s c roomId"
| "dispatch s c (Request_users roomId) = on_request_users s c roomId"
| "dispatch s c (Sending_signal userToSignal callerID sig) =
     on_sending_signal s c userToSignal callerID sig"
| "dispatch s c (Returning_signal sig callerID) = on_returning_signal s c sig callerID"
| "dispatch s c (Code_change roomId cd dl) = on_code_change s c roomId cd dl"
| "dispatch s c (Language_change roomId lang) = on_language_change s c roomId lang"
| "dispatch s c (Output_change roomId out) = on_output_change s c roomId out"
| "dispatch s c Leave_room = (s, [])"

subsection \<open>The event loop of the server\<close>

text \<open>
  What the server process reacts to: a new connection (the transport puts the
  socket into the group of its own id; ids are unique, so a connection event
  for a connected id does not occur), a message of a connected socket, the
  disconnection of a connected socket (the transport removes it from every
  group, then the handler runs), and the oldest pending timer running.
\<close>

datatype event =
    Connection sid
  | Message sid client_msg
  | Disconnect sid
  | Timeout

fun step :: "server \<Rightarrow> event \<Rightarrow> server \<times> delivery list" where
  "step s (Connection c) = (if connected s c then s else socket_join s c c, [])"
| "step s (Message c m) = (if connected s c then dispatch s c m else (s, []))"
| "step s (Disconnect c) = (if connected s c then on_disconnect (leave_all s c) c else s, [])"
| "step s Timeout =
     (case timers s of
        [] \<Rightarrow> (s, [])
      | (c, roomId) # ts \<Rightarrow> on_timeout (s\<lparr>timers := ts\<rparr>) c roomId)"

fun run :: "server \<Rightarrow> event list \<Rightarrow> server" where
  "run s [] = s"
| "run s (e # es) = run (fst (step s e)) es"

subsection \<open>Auxiliary notions\<close>

text \<open>The messages a client has emitted, handled one after the other.\<close>

fun flush :: "server \<Rightarrow> sid \<Rightarrow> client_msg list \<Rightarrow> server \<times> delivery list" where
  "flush s c [] = (s, [])"
| "flush s c (m # ms) =
     (let (s1, out1) = step s (Message c m);
          (s2, out2) = flush s1 c ms
      in (s2, out1 @ out2))"


fun is_sync_state :: "server_msg \<Rightarrow> bool" where
  "is_sync_state (Sync_state rd) = True"
| "is_sync_state m = False"


text \<open>
  The groups other than its own that a connection is a member of contain at
  most one key.
\<close>

definition one_room :: "server \<Rightarrow> bool" where
  "one_room s =
     (\<forall>c r r'. c \<in> set (members s r) \<and> c \<in> set (members s r') \<and> r \<noteq> c \<and> r' \<noteq> c
        \<longrightarrow> r = r')"

text \<open>
  Every membership of a connection in a group other than its own is the one
  that the socket-to-room map records.
\<close>

definition recorded :: "server \<Rightarrow> bool" where
  "recorded s = (\<forall>c r. c \<in> set (members s r) \<and> r \<noteq> c \<longrightarrow> socketRoomMap s c = Some r)"

text \<open>
  The discipline of the client program towards the server: a connection sends
  \<open>join_room\<close> only while no other room is recorded for it. In the client the
  join controls are rendered only while \<open>joined\<close> is false, and \<open>leaveRoom\<close>
  ends with \<open>window.location.reload()\<close>, after which the page has a new
  connection.
\<close>

fun single_join :: "server \<Rightarrow> event \<Rightarrow> bool" where
  "single_join s (Message c (Join_room r)) =
     (socketRoomMap s c = None \<or> socketRoomMap s c = Some r)"
| "single_join s e = True"

fun disciplined :: "server \<Rightarrow> event list \<Rightarrow> bool" where
  "disciplined s [] = True"
| "disciplined s (e # es) = (single_join s e \<and> disciplined (fst (step s e)) es)"






subsection \<open>The client\<close>

text \<open>
  The state of the \<open>App\<close> component that the replication protocol uses: the
  React state variables, the \<open>isRemoteUpdate\<close> ref, the editor behind
  \<open>editorRef\<close> (its buffer, or nothing before the editor is mounted), the
  pending callbacks of \<open>setTimeout(() => { isRemoteUpdate.current = false }, ms)\<close>
  (their delays; the callbacks are all the same), and the messages given to
  \<open>socket.emit\<close> so far.
\<close>

record client =
  roomId :: string
  joined :: bool
  language_st :: string
  code_st :: string
  output_st :: "string list"
  userCount :: nat
  isRemoteUpdate :: bool
  editorRef :: "string option"
  flag_timers :: "nat list"
  emitted :: "client_msg list"

text \<open>
  The editor widget is not part of the program. What it does to the buffer
  with a list of edit operations, and which change list it reports when the
  whole buffer is replaced, are parameters.
\<close>

record monaco =
  apply_ops :: "delta \<Rightarrow> string \<Rightarrow> string"
  replace_ops :: "string \<Rightarrow> string \<Rightarrow> delta"

text \<open>
  The listener installed by \<open>handleEditorDidMount\<close>. The widget calls it,
  synchronously, whenever the buffer has changed.
\<close>

definition onDidChangeModelContent :: "client \<Rightarrow> delta \<Rightarrow> client" where
  "onDidChangeModelContent c changes =
     (if isRemoteUpdate c then c
      else (case editorRef c of
              None \<Rightarrow> c
            | Some currentCode \<Rightarrow>
                c\<lparr>code_st := currentCode,
                  emitted := emitted c @
                    [Code_change (roomId c) currentCode (Some changes)]\<rparr>))"

definition setValue :: "monaco \<Rightarrow> string \<Rightarrow> client \<Rightarrow> client" where
  "setValue w v c =
     (case editorRef c of
        None \<Rightarrow> c
      | Some old \<Rightarrow> onDidChangeModelContent (c\<lparr>editorRef := Some v\<rparr>) (replace_ops w old v))"

definition executeEdits :: "monaco \<Rightarrow> delta \<Rightarrow> client \<Rightarrow> client" where
  "executeEdits w d c =
     (case editorRef c of
        None \<Rightarrow> c
      | Some old \<Rightarrow> onDidChangeModelContent (c\<lparr>editorRef := Some (apply_ops w d old)\<rparr>) d)"

definition on_sync_state :: "monaco \<Rightarrow> client \<Rightarrow> RoomData \<Rightarrow> client" where
  "on_sync_state w c st =
     (let c1 = c\<lparr>isRemoteUpdate := True\<rparr>;
          c2 = setValue w (code st) c1;
          c3 = c2\<lparr>code_st := code st, language_st := language st, output_st := output st\<rparr>
      in c3\<lparr>flag_timers := flag_timers c3 @ [100]\<rparr>)"

definition on_receive_code :: "monaco \<Rightarrow> client \<Rightarrow> string \<Rightarrow> delta option \<Rightarrow> client" where
  "on_receive_code w c cd dl =
     (case editorRef c of
        None \<Rightarrow> c
      | Some b \<Rightarrow>
          (case dl of
             Some d \<Rightarrow>
               (let c1 = c\<lparr>isRemoteUpdate := True\<rparr>;
                    c2 = executeEdits w d c1;
                    c3 = c2\<lparr>code_st := (case editorRef c2 of Some v \<Rightarrow> v | None \<Rightarrow> [])\<rparr>
                in c3\<lparr>isRemoteUpdate := False\<rparr>)
           | None \<Rightarrow>
               (let c1 = c\<lparr>isRemoteUpdate := True\<rparr>;
                    c2 = setValue w cd c1;
                    c3 = c2\<lparr>code_st := cd\<rparr>
                in c3\<lparr>flag_timers := flag_timers c3 @ [50]\<rparr>)))"

text \<open>One pending flag callback runs.\<close>

definition on_flag_timer :: "client \<Rightarrow> client" where
  "on_flag_timer c =
     (case flag_timers c of
        [] \<Rightarrow> c
      | t # ts \<Rightarrow> c\<lparr>isRemoteUpdate := False, flag_timers := ts\<rparr>)"

definition on_receive_output :: "client \<Rightarrow> string list \<Rightarrow> client" where
  "on_receive_output c out = c\<lparr>output_st := out\<rparr>"

text \<open>
  The \<open>Clear\<close> button of the terminal pane. Two of the three \<open>App\<close> components
  have the first handler; the shorter component has the second.
\<close>

definition clear_click :: "client \<Rightarrow> client" where
  "clear_click c =
     c\<lparr>output_st := [], emitted := emitted c @ [Output_change (roomId c) []]\<rparr>"

definition clear_click_local :: "client \<Rightarrow> client" where
  "clear_click_local c = c\<lparr>output_st := []\<rparr>"

text \<open>
  \<open>leaveRoom\<close>, without the voice state. It ends by reloading the page, which
  closes the connection: that is the \<open>Disconnect\<close> event of the server.
\<close>

definition leaveRoom :: "client \<Rightarrow> client" where
  "leaveRoom c = c\<lparr>emitted := emitted c @ [Leave_room], joined := False, roomId := []\<rparr>"

section \<open>Properties\<close>

subsection \<open>Facts about the handlers\<close>

lemmas transport_defs = connected_def members_def socket_join_def leave_all_def io_to_def
  socket_to_def socket_emit_def
lemmas handler_defs = on_join_room_def on_request_users_def on_sending_signal_def
  on_returning_signal_def on_code_change_def on_language_change_def on_output_change_def
  on_disconnect_def on_timeout_def

lemma filter_map_const:
  "filter (\<lambda>d. P (snd d)) (map (\<lambda>x. (x, m)) xs) = (if P m then map (\<lambda>x. (x, m)) xs else [])"
  by (induction xs) auto

lemma join_room_result:
  "on_join_room s c r = (s', out) \<Longrightarrow>
     adapter_rooms s' = adapter_rooms (socket_join s c r)
     \<and> rooms s' r = Some (case rooms s r of None \<Rightarrow> default_room | Some rd \<Rightarrow> rd)
     \<and> (\<forall>r'. r' \<noteq> r \<longrightarrow> rooms s' r' = rooms s r')
     \<and> socketRoomMap s' = (socketRoomMap s)(c \<mapsto> r)
     \<and> timers s' = timers s
     \<and> out = map (\<lambda>x. (x, User_count (length (members s' r)))) (members s' r)
           @ map (\<lambda>x. (x, Sync_state (case rooms s r of None \<Rightarrow> default_room | Some rd \<Rightarrow> rd)))
               (members s' c)"
  by (auto simp: on_join_room_def Let_def io_to_def members_def socket_join_def
           split: option.splits)

lemma timeout_result:
  "on_timeout s c r = (s', out) \<Longrightarrow>
     adapter_rooms s' = adapter_rooms s
     \<and> socketRoomMap s' = socketRoomMap s
     \<and> timers s' = timers s
     \<and> rooms s' = (if members s r = [] then (rooms s)(r := None) else rooms s)
     \<and> out = map (\<lambda>x. (x, User_count (length (members s r)))) (members s r)
           @ map (\<lambda>x. (x, User_left c))
               (filter (\<lambda>x. x \<notin> set (members s c)) (members s r))"
  by (auto simp: on_timeout_def Let_def io_to_def socket_to_def members_def)


lemma step_no_sync:
  "(\<forall>c r. e \<noteq> Message c (Join_room r)) \<Longrightarrow>
     filter (\<lambda>d. is_sync_state (snd d)) (snd (step s e)) = []"
proof (cases e)
  case (Message c m)
  assume "\<forall>c r. e \<noteq> Message c (Join_room r)"
  with Message show ?thesis
    by (cases m)
       (simp_all add: handler_defs io_to_def socket_to_def socket_emit_def filter_map_const
                 split: option.splits)
next
  case Timeout
  show ?thesis
    unfolding Timeout
    by (simp add: on_timeout_def Let_def io_to_def socket_to_def filter_map_const
             split: list.splits)
qed simp_all

lemma dispatch_keeps:
  "dispatch s c m = (s', out) \<Longrightarrow>
     dom (rooms s) \<subseteq> dom (rooms s') \<and> dom (socketRoomMap s) \<subseteq> dom (socketRoomMap s')
     \<and> (\<forall>r. set (members s r) \<subseteq> set (members s' r)) \<and> timers s' = timers s"
proof (cases m)
  case (Join_room r)
  assume "dispatch s c m = (s', out)"
  with Join_room have "on_join_room s c r = (s', out)" by simp
  from join_room_result [OF this] show ?thesis
    by (auto simp: members_def socket_join_def dom_def split: option.splits if_splits)
qed (auto simp: handler_defs members_def split: option.splits)

lemma members_socket_join:
  "members (socket_join s c r) r' =
     (if r' = r \<and> c \<notin> set (members s r) then members s r @ [c] else members s r')"
  by (simp add: members_def socket_join_def)

lemma socketRoomMap_socket_join: "socketRoomMap (socket_join s c r) = socketRoomMap s"
  by (simp add: socket_join_def)

lemma recorded_step:
  assumes "recorded s" and "single_join s e"
  shows "recorded (fst (step s e))"
proof (cases e)
  case (Connection c)
  with assms(1) show ?thesis
    by (auto simp: recorded_def members_socket_join socketRoomMap_socket_join
             split: if_splits)
next
  case (Message c m)
  show ?thesis
  proof (cases "connected s c")
    case False
    with Message assms(1) show ?thesis by simp
  next
    case True
    show ?thesis
    proof (cases m)
      case (Join_room r)
      obtain s' out where j: "on_join_room s c r = (s', out)" by (cases "on_join_room s c r")
      from assms(2) Message Join_room
      have d: "socketRoomMap s c = None \<or> socketRoomMap s c = Some r" by simp
      have "recorded s'"
        unfolding recorded_def
      proof (intro allI impI)
        fix c' r'
        assume h: "c' \<in> set (members s' r') \<and> r' \<noteq> c'"
        from join_room_result [OF j]
        have a: "members s' r' = members (socket_join s c r) r'"
          and b: "socketRoomMap s' = (socketRoomMap s)(c \<mapsto> r)"
          by (simp_all add: members_def)
        show "socketRoomMap s' c' = Some r'"
        proof (cases "c' \<in> set (members s r')")
          case True
          with h assms(1) have "socketRoomMap s c' = Some r'" by (simp add: recorded_def)
          with d b show ?thesis by auto
        next
          case False
          with h a have "c' = c \<and> r' = r"
            by (auto simp: members_socket_join split: if_splits)
          with b show ?thesis by simp
        qed
      qed
      with Message Join_room True j show ?thesis by simp
    qed (use assms(1) Message True in
          \<open>auto simp: recorded_def handler_defs members_def split: option.splits\<close>)
  qed
next
  case (Disconnect c)
  show ?thesis
  proof (cases "connected s c")
    case False
    with Disconnect assms(1) show ?thesis by simp
  next
    case True
    have m: "members (on_disconnect (leave_all s c) c) r = removeAll c (members s r)" for r
      by (simp add: on_disconnect_def members_def leave_all_def split: option.splits)
    have k: "c' \<noteq> c \<Longrightarrow> socketRoomMap (on_disconnect (leave_all s c) c) c' = socketRoomMap s c'"
      for c'
      by (simp add: on_disconnect_def leave_all_def split: option.splits)
    from assms(1) have "recorded (on_disconnect (leave_all s c) c)"
      unfolding recorded_def by (auto simp: m k)
    with Disconnect True show ?thesis by simp
  qed
next
  case Timeout
  show ?thesis
  proof (cases "timers s")
    case Nil
    with Timeout assms(1) show ?thesis by simp
  next
    case (Cons p ts)
    obtain c r where p: "p = (c, r)" by (cases p)
    obtain s' out where o: "on_timeout (s\<lparr>timers := ts\<rparr>) c r = (s', out)"
      by (cases "on_timeout (s\<lparr>timers := ts\<rparr>) c r")
    from timeout_result [OF o] assms(1) have "recorded s'"
      by (simp add: recorded_def members_def)
    with Timeout Cons p o show ?thesis by simp
  qed
qed

lemma recorded_run: "recorded s \<Longrightarrow> disciplined s es \<Longrightarrow> recorded (run s es)"
  by (induction es arbitrary: s) (simp_all add: recorded_step)

lemma recorded_init: "recorded init"
  by (simp add: recorded_def init_def members_def)

lemma recorded_one_room: "recorded s \<Longrightarrow> one_room s"
  unfolding recorded_def one_room_def by (metis option.inject)

lemmas client_defs = onDidChangeModelContent_def setValue_def executeEdits_def on_sync_state_def
  on_receive_code_def on_flag_timer_def on_receive_output_def clear_click_def
  clear_click_local_def

text \<open>
  The \<open>Clear\<close> handler that emits: clicking twice leaves the output empty in
  the client, in the room store and in every other member that handles the
  forwarded output, as clicking once does.
\<close>

lemma clear_click_twice:
  assumes "connected s c" and "rooms s (roomId cl) = Some rd"
  shows "output_st (clear_click cl) = []
       \<and> output_st (clear_click (clear_click cl)) = []
       \<and> emitted (clear_click (clear_click cl))
           = emitted cl @ [Output_change (roomId cl) [], Output_change (roomId cl) []]
       \<and> rooms (fst (flush s c [Output_change (roomId cl) []])) (roomId cl)
           = Some (rd\<lparr>output := []\<rparr>)
       \<and> rooms (fst (flush s c [Output_change (roomId cl) [], Output_change (roomId cl) []]))
           = rooms (fst (flush s c [Output_change (roomId cl) []]))
       \<and> snd (flush s c [Output_change (roomId cl) [], Output_change (roomId cl) []])
           = map (\<lambda>x. (x, Receive_output []))
               (filter (\<lambda>x. x \<notin> set (members s c)) (members s (roomId cl)))
             @ map (\<lambda>x. (x, Receive_output []))
                 (filter (\<lambda>x. x \<notin> set (members s c)) (members s (roomId cl)))
       \<and> output_st (on_receive_output (on_receive_output cl' []) []) = []"
  using assms
  by (simp add: clear_click_def on_receive_output_def on_output_change_def socket_to_def
        connected_def members_def)











subsection \<open>Edits\<close>




subsection \<open>Member counts\<close>




subsection \<open>Operations on an unknown room key\<close>

text \<open>
  C5. A content, language or output change whose room key is not in the room
  store changes nothing: the server state is the same afterwards and nothing
  is delivered to anybody. The handler returns normally (the model is a total
  function that yields this result).
\<close>

theorem unknown_room_noop:
  assumes "rooms s r = None"
  shows "step s (Message c (Code_change r cd dl)) = (s, [])
       \<and> step s (Message c (Language_change r lang)) = (s, [])
       \<and> step s (Message c (Output_change r out)) = (s, [])"
  using assms
  by (simp add: on_code_change_def on_language_change_def on_output_change_def)

theorem unknown_room_noop_witness:
  "rooms (run init [Connection ''A'']) ''r'' = None
   \<and> snd (step (run init [Connection ''A''])
            (Message ''A'' (Code_change ''r'' ''x = 1'' None))) = []
   \<and> snd (step (run init [Connection ''A''])
            (Message ''A'' (Language_change ''r'' ''python''))) = []
   \<and> snd (step (run init [Connection ''A''])
            (Message ''A'' (Output_change ''r'' []))) = []"
proof -
  have h: "rooms (run init [Connection ''A'']) ''r'' = None"
    by (simp add: init_def connected_def members_def socket_join_def)
  show ?thesis
    using h unknown_room_noop [OF h, of "''A''" "''x = 1''" None "''python''" "[]"]
    by simp
qed

subsection \<open>The snapshot of a join\<close>

text \<open>
  C3 (as the code has it). When a connected socket \<open>c\<close> joins room \<open>r\<close>, the
  room store holds for \<open>r\<close> afterwards what it held before, or the default
  state if it held nothing, and a snapshot with exactly that content, language
  and output is delivered to the members of the transport group keyed by the
  id of \<open>c\<close>. The socket \<open>c\<close> is one of them, whatever was joined before and in
  whatever order; when it is the only one, the snapshot goes to \<open>c\<close> alone.
  No event other than a join makes the server send a snapshot.
\<close>

theorem join_snapshot:
  assumes "connected s c" and "step s (Message c (Join_room r)) = (s', out)"
  shows "rooms s' r = Some (case rooms s r of None \<Rightarrow> default_room | Some rd \<Rightarrow> rd)
       \<and> filter (\<lambda>d. is_sync_state (snd d)) out
           = map (\<lambda>x. (x, Sync_state (case rooms s r of None \<Rightarrow> default_room | Some rd \<Rightarrow> rd)))
               (members s c)
       \<and> c \<in> set (members s c)
       \<and> (members s c = [c] \<longrightarrow>
            filter (\<lambda>d. is_sync_state (snd d)) out
              = [(c, Sync_state (case rooms s r of None \<Rightarrow> default_room | Some rd \<Rightarrow> rd))])
       \<and> (\<forall>e. (\<forall>c' r'. e \<noteq> Message c' (Join_room r')) \<longrightarrow>
              filter (\<lambda>d. is_sync_state (snd d)) (snd (step s e)) = [])"
proof -
  from assms have j: "on_join_room s c r = (s', out)" by simp
  from assms(1) have m: "members s' c = members s c"
    using join_room_result [OF j] by (auto simp: members_def socket_join_def connected_def)
  from join_room_result [OF j] m assms(1) show ?thesis
    by (simp add: filter_map_const step_no_sync connected_def)
qed

theorem join_snapshot_witness:
  "snd (step (run init [Connection ''A'', Message ''A'' (Join_room ''r''),
                        Message ''A'' (Code_change ''r'' ''x = 1'' None),
                        Message ''A'' (Language_change ''r'' ''python''),
                        Message ''A'' (Output_change ''r'' [''1'']), Connection ''B''])
         (Message ''B'' (Join_room ''r'')))
   = [(''A'', User_count 2), (''B'', User_count 2),
      (''B'', Sync_state \<lparr>code = ''x = 1'', language = ''python'', output = [''1'']\<rparr>)]"
proof -
  let ?s = "run init [Connection ''A'', Message ''A'' (Join_room ''r''),
                      Message ''A'' (Code_change ''r'' ''x = 1'' None),
                      Message ''A'' (Language_change ''r'' ''python''),
                      Message ''A'' (Output_change ''r'' [''1'']), Connection ''B'']"
  let ?e = "Message ''B'' (Join_room ''r'')"
  have c: "connected ?s ''B''"
    by (simp add: init_def transport_defs handler_defs Let_def)
  have m: "members ?s ''B'' = [''B'']"
    by (simp add: init_def transport_defs handler_defs Let_def)
  have r: "rooms ?s ''r'' = Some \<lparr>code = ''x = 1'', language = ''python'', output = [''1'']\<rparr>"
    by (simp add: init_def transport_defs handler_defs Let_def default_room_def)
  have o: "filter (\<lambda>d. \<not> is_sync_state (snd d)) (snd (step ?s ?e))
             = [(''A'', User_count 2), (''B'', User_count 2)]"
    by (simp add: init_def transport_defs handler_defs Let_def)
  have l: "length (snd (step ?s ?e)) = 3" 
    by (simp add: init_def transport_defs handler_defs Let_def)
  from join_snapshot [OF c, of "''r''" "fst (step ?s ?e)" "snd (step ?s ?e)"] m r
  have "filter (\<lambda>d. is_sync_state (snd d)) (snd (step ?s ?e))
          = [(''B'', Sync_state \<lparr>code = ''x = 1'', language = ''python'', output = [''1'']\<rparr>)]"
    by simp
  then show ?thesis
    by (simp add: init_def transport_defs handler_defs Let_def default_room_def)
qed

text \<open>
  C3 as stated fails where it says that the snapshot goes to the joining
  connection only. The snapshot is sent with \<open>io.to(socket.id)\<close>, to the group
  keyed by the id of the socket, and \<open>join_room\<close> accepts any string as a room
  key: after \<open>Y\<close> has joined the room keyed by the id of \<open>X\<close>, the snapshot of a
  join of \<open>X\<close> is delivered to \<open>Y\<close> as well.
\<close>

theorem join_snapshot_counterexample:
  "snd (step (run init [Connection ''X'', Connection ''Y'', Message ''Y'' (Join_room ''X'')])
         (Message ''X'' (Join_room ''r'')))
   = [(''X'', User_count 1), (''X'', Sync_state default_room), (''Y'', Sync_state default_room)]"
  by (simp add: init_def transport_defs handler_defs Let_def)

subsection \<open>The life of a room\<close>

text \<open>
  C4 (as the code has it). The first join with a key that the room store does
  not hold creates the room with the default content, the default language and
  the default output, and the joining socket receives these defaults. The
  disconnection of a socket whose recorded room key is \<open>r\<close>, not empty, deletes
  nothing yet: it schedules a callback. When that callback runs, the room is
  deleted from the store if the transport group of \<open>r\<close> has no member at that
  moment, and is kept otherwise; after such a deletion a join with the same key
  receives the defaults again.
\<close>

theorem room_lifecycle:
  "(connected s c \<and> rooms s r = None \<longrightarrow>
      rooms (fst (step s (Message c (Join_room r)))) r = Some default_room
      \<and> (c, Sync_state default_room) \<in> set (snd (step s (Message c (Join_room r)))))
   \<and> (connected s c \<and> socketRoomMap s c = Some r \<and> r \<noteq> [] \<longrightarrow>
        timers (fst (step s (Disconnect c))) = timers s @ [(c, r)]
        \<and> rooms (fst (step s (Disconnect c))) = rooms s)
   \<and> (timers s = (c, r) # ts \<longrightarrow>
        rooms (fst (step s Timeout)) = (if members s r = [] then (rooms s)(r := None) else rooms s))
   \<and> (timers s = (c, r) # ts \<and> members s r = [] \<and> connected s c' \<longrightarrow>
        (c', Sync_state default_room)
          \<in> set (snd (step (fst (step s Timeout)) (Message c' (Join_room r)))))"
proof -
  have 1: "connected s c \<and> rooms s r = None \<longrightarrow>
      rooms (fst (step s (Message c (Join_room r)))) r = Some default_room
      \<and> (c, Sync_state default_room) \<in> set (snd (step s (Message c (Join_room r))))"
  proof
    assume h: "connected s c \<and> rooms s r = None"
    obtain s' out where j: "on_join_room s c r = (s', out)" by (cases "on_join_room s c r")
    from join_room_result [OF j] h j
    show "rooms (fst (step s (Message c (Join_room r)))) r = Some default_room
        \<and> (c, Sync_state default_room) \<in> set (snd (step s (Message c (Join_room r))))"
      by (auto simp: connected_def members_def socket_join_def)
  qed
  have 2: "connected s c \<and> socketRoomMap s c = Some r \<and> r \<noteq> [] \<longrightarrow>
        timers (fst (step s (Disconnect c))) = timers s @ [(c, r)]
        \<and> rooms (fst (step s (Disconnect c))) = rooms s"
    by (simp add: on_disconnect_def leave_all_def)
  have 3: "timers s = (c, r) # ts \<longrightarrow>
        rooms (fst (step s Timeout)) = (if members s r = [] then (rooms s)(r := None) else rooms s)"
  proof
    assume t: "timers s = (c, r) # ts"
    obtain s' out where o: "on_timeout (s\<lparr>timers := ts\<rparr>) c r = (s', out)"
      by (cases "on_timeout (s\<lparr>timers := ts\<rparr>) c r")
    from timeout_result [OF o] t o
    show "rooms (fst (step s Timeout))
            = (if members s r = [] then (rooms s)(r := None) else rooms s)"
      by (simp add: members_def)
  qed
  have 4: "timers s = (c, r) # ts \<and> members s r = [] \<and> connected s c' \<longrightarrow>
        (c', Sync_state default_room)
          \<in> set (snd (step (fst (step s Timeout)) (Message c' (Join_room r))))"
  proof
    assume t: "timers s = (c, r) # ts \<and> members s r = [] \<and> connected s c'"
    obtain s' out where o: "on_timeout (s\<lparr>timers := ts\<rparr>) c r = (s', out)"
      by (cases "on_timeout (s\<lparr>timers := ts\<rparr>) c r")
    obtain s2 out2 where j: "on_join_room s' c' r = (s2, out2)" by (cases "on_join_room s' c' r")
    from timeout_result [OF o] t have 1: "rooms s' r = None" "connected s' c'"
      by (simp_all add: members_def connected_def)
    from join_room_result [OF j] 1 have "(c', Sync_state default_room) \<in> set out2"
      by (auto simp: connected_def members_def socket_join_def)
    with t o j 1 show "(c', Sync_state default_room)
            \<in> set (snd (step (fst (step s Timeout)) (Message c' (Join_room r))))"
      by simp
  qed
  show ?thesis by (rule conjI [OF 1 conjI [OF 2 conjI [OF 3 4]]])
qed

theorem room_lifecycle_witness:
  "rooms (run init [Connection ''A'', Message ''A'' (Join_room ''r''),
                    Message ''A'' (Code_change ''r'' ''x = 1'' None),
                    Disconnect ''A'', Timeout]) ''r'' = None
   \<and> (''B'', Sync_state default_room)
       \<in> set (snd (step (run init [Connection ''A'', Message ''A'' (Join_room ''r''),
                    Message ''A'' (Code_change ''r'' ''x = 1'' None),
                    Disconnect ''A'', Timeout, Connection ''B''])
                 (Message ''B'' (Join_room ''r''))))"
proof -
  let ?s = "run init [Connection ''A'', Message ''A'' (Join_room ''r''),
                    Message ''A'' (Code_change ''r'' ''x = 1'' None), Disconnect ''A'']"
  let ?s' = "run init [Connection ''A'', Message ''A'' (Join_room ''r''),
                    Message ''A'' (Code_change ''r'' ''x = 1'' None),
                    Disconnect ''A'', Timeout, Connection ''B'']"
  have t: "timers ?s = (''A'', ''r'') # []"
    by (simp add: init_def transport_defs handler_defs Let_def)
  have m: "members ?s ''r'' = []"
    by (simp add: init_def transport_defs handler_defs Let_def)
  have c: "connected ?s' ''B''"
    by (simp add: init_def transport_defs handler_defs Let_def)
  have r: "rooms ?s' ''r'' = None"
    by (simp add: init_def transport_defs handler_defs Let_def)
  from room_lifecycle [of ?s "''A''" "''r''" "[]" "''B''"] t m
  have 1: "rooms (fst (step ?s Timeout)) ''r'' = None" by simp
  from room_lifecycle [of ?s' "''B''" "''r''" "[]" "''B''"] c r
  have 2: "(''B'', Sync_state default_room) \<in> set (snd (step ?s' (Message ''B'' (Join_room ''r''))))"
    by blast
  from 1 2 show ?thesis by simp
qed

text \<open>
  C4 as stated fails between a disconnection and its callback. \<open>A\<close>, alone in
  room \<open>r\<close>, edits the content and disconnects: the group of \<open>r\<close> has no member
  left, but the room is still stored. \<open>B\<close> joins \<open>r\<close> before the callback runs and
  receives the content that \<open>A\<close> left behind, not the default content.
\<close>

theorem room_lifecycle_counterexample:
  "members (run init [Connection ''A'', Message ''A'' (Join_room ''r''),
                      Message ''A'' (Code_change ''r'' ''x = 1'' None),
                      Disconnect ''A'', Connection ''B'']) ''r'' = []
   \<and> snd (step (run init [Connection ''A'', Message ''A'' (Join_room ''r''),
                           Message ''A'' (Code_change ''r'' ''x = 1'' None),
                           Disconnect ''A'', Connection ''B''])
            (Message ''B'' (Join_room ''r'')))
     = [(''B'', User_count 1),
        (''B'', Sync_state \<lparr>code = ''x = 1'', language = ''javascript'',
                            output = [''Ready to execute...'']\<rparr>)]"
  by (simp add: init_def transport_defs handler_defs Let_def default_room_def)

subsection \<open>The signalling relay\<close>

text \<open>
  C6 (as the code has it). An offer addressed to \<open>x\<close> is delivered, with the
  signal and the caller id of the message, to the members of the transport
  group keyed by \<open>x\<close>, and an answer addressed to \<open>x\<close> is delivered to them with
  the signal and the id of the responding socket; the server state does not
  change. When \<open>x\<close> is the only member of that group, \<open>x\<close> and only \<open>x\<close> is
  reached. When the group has no member (the target is not connected and no
  socket has joined a room with that key), nothing is delivered to anybody, the
  sender included.
\<close>

theorem relay_reaches_group:
  assumes "connected s c"
  shows "step s (Message c (Sending_signal x caller sg))
           = (s, map (\<lambda>y. (y, User_joined sg caller)) (members s x))
       \<and> step s (Message c (Returning_signal sg x))
           = (s, map (\<lambda>y. (y, Receiving_returned_signal sg c)) (members s x))
       \<and> (members s x = [x] \<longrightarrow>
            snd (step s (Message c (Sending_signal x caller sg))) = [(x, User_joined sg caller)]
          \<and> snd (step s (Message c (Returning_signal sg x)))
              = [(x, Receiving_returned_signal sg c)])
       \<and> (members s x = [] \<longrightarrow>
            snd (step s (Message c (Sending_signal x caller sg))) = []
          \<and> snd (step s (Message c (Returning_signal sg x))) = [])"
  using assms by (simp add: on_sending_signal_def on_returning_signal_def io_to_def)


theorem relay_reaches_group_witness:
  "snd (step (run init [Connection ''A'', Message ''A'' (Join_room ''x''),
                        Connection ''B'', Message ''B'' (Join_room ''x'')])
         (Message ''A'' (Sending_signal ''B'' ''A'' ''offer'')))
     = [(''B'', User_joined ''offer'' ''A'')]
   \<and> snd (step (run init [Connection ''A'', Message ''A'' (Join_room ''x''),
                        Connection ''B'', Message ''B'' (Join_room ''x'')])
         (Message ''B'' (Returning_signal ''answer'' ''A'')))
     = [(''A'', Receiving_returned_signal ''answer'' ''B'')]
   \<and> snd (step (run init [Connection ''A'', Message ''A'' (Join_room ''x''),
                        Connection ''B'', Message ''B'' (Join_room ''x'')])
         (Message ''A'' (Sending_signal ''Z'' ''A'' ''offer''))) = []"
proof -
  let ?s = "run init [Connection ''A'', Message ''A'' (Join_room ''x''),
                      Connection ''B'', Message ''B'' (Join_room ''x'')]"
  have a: "connected ?s ''A''" and b: "connected ?s ''B''"
    by (simp_all add: init_def transport_defs handler_defs Let_def)
  have ma: "members ?s ''A'' = [''A'']" and mb: "members ?s ''B'' = [''B'']"
    and mz: "members ?s ''Z'' = []"
    by (simp_all add: init_def transport_defs handler_defs Let_def)
  from relay_reaches_group [OF a, of "''B''" "''A''" "''offer''"] mb
  have 1: "snd (step ?s (Message ''A'' (Sending_signal ''B'' ''A'' ''offer'')))
             = [(''B'', User_joined ''offer'' ''A'')]" by simp
  from relay_reaches_group [OF b, of "''A''" "''B''" "''answer''"] ma
  have 2: "snd (step ?s (Message ''B'' (Returning_signal ''answer'' ''A'')))
             = [(''A'', Receiving_returned_signal ''answer'' ''B'')]" by simp
  from relay_reaches_group [OF a, of "''Z''" "''A''" "''offer''"] mz
  have 3: "snd (step ?s (Message ''A'' (Sending_signal ''Z'' ''A'' ''offer''))) = []" by simp
  from 1 2 3 show ?thesis by simp
qed

text \<open>
  C6 as stated fails where it says that only \<open>X\<close> is reached. The relay sends
  with \<open>io.to(payload.userToSignal)\<close>, to the group keyed by the target id, and
  \<open>join_room\<close> accepts any string as a room key: after \<open>Y\<close> has joined the room
  keyed by the id of \<open>X\<close>, an offer addressed to \<open>X\<close> is delivered to \<open>Y\<close> as well.
\<close>

theorem relay_counterexample:
  "snd (step (run init [Connection ''X'', Connection ''Y'', Connection ''A'',
                        Message ''Y'' (Join_room ''X'')])
         (Message ''A'' (Sending_signal ''X'' ''A'' ''offer'')))
   = [(''X'', User_joined ''offer'' ''A''), (''Y'', User_joined ''offer'' ''A'')]"
  by (simp add: init_def transport_defs handler_defs Let_def)


subsection \<open>The leave message\<close>

text \<open>
  C10. \<open>leaveRoom\<close> of the client emits a leave message. The server has no
  handler for it: the state after the message is the state before (room store,
  socket-to-room map, transport groups, pending callbacks) and nothing is
  delivered. More generally neither a new connection nor any message of a
  client removes a room from the store, an entry from the socket-to-room map
  or a member from a transport group: entries are removed only by the
  disconnection of a socket and by the callback it schedules.
\<close>

theorem leave_room_unhandled:
  "emitted (leaveRoom cl) = emitted cl @ [Leave_room]
   \<and> step s (Message c Leave_room) = (s, [])
   \<and> (\<forall>e. e = Connection c \<or> (\<exists>m. e = Message c m) \<longrightarrow>
         dom (rooms s) \<subseteq> dom (rooms (fst (step s e)))
         \<and> dom (socketRoomMap s) \<subseteq> dom (socketRoomMap (fst (step s e)))
         \<and> (\<forall>r. set (members s r) \<subseteq> set (members (fst (step s e)) r)))"
proof -
  have "dom (rooms s) \<subseteq> dom (rooms (fst (step s e)))
         \<and> dom (socketRoomMap s) \<subseteq> dom (socketRoomMap (fst (step s e)))
         \<and> (\<forall>r. set (members s r) \<subseteq> set (members (fst (step s e)) r))"
    if "e = Connection c \<or> (\<exists>m. e = Message c m)" for e
  proof -
    from that consider "e = Connection c" | m where "e = Message c m" by blast
    then show ?thesis
    proof cases
      case 1
      then show ?thesis by (auto simp: members_def socket_join_def connected_def)
    next
      case 2
      obtain s' out where d: "dispatch s c m = (s', out)" by (cases "dispatch s c m")
      from dispatch_keeps [OF d] 2 d show ?thesis by auto
    qed
  qed
  then show ?thesis by (simp add: leaveRoom_def)
qed


theorem leave_room_unhandled_witness:
  "emitted (leaveRoom \<lparr>roomId = ''r'', joined = True, language_st = ''javascript'',
       code_st = ''a'', output_st = [], userCount = 1, isRemoteUpdate = False,
       editorRef = Some ''a'', flag_timers = [], emitted = []\<rparr>) = [Leave_room]
   \<and> snd (step (run init [Connection ''A'', Message ''A'' (Join_room ''r'')])
         (Message ''A'' Leave_room)) = []
   \<and> members (fst (step (run init [Connection ''A'', Message ''A'' (Join_room ''r'')])
         (Message ''A'' Leave_room))) ''r'' = [''A'']
   \<and> socketRoomMap (fst (step (run init [Connection ''A'', Message ''A'' (Join_room ''r'')])
         (Message ''A'' Leave_room))) ''A'' = Some ''r''
   \<and> rooms (fst (step (run init [Connection ''A'', Message ''A'' (Join_room ''r'')])
         (Message ''A'' Leave_room))) ''r'' = Some default_room"
proof -
  let ?s = "run init [Connection ''A'', Message ''A'' (Join_room ''r'')]"
  have m: "members ?s ''r'' = [''A'']" and sr: "socketRoomMap ?s ''A'' = Some ''r''"
    and r: "rooms ?s ''r'' = Some default_room"
    by (simp_all add: init_def transport_defs handler_defs Let_def)
  let ?cl = "\<lparr>roomId = ''r'', joined = True, language_st = ''javascript'',
       code_st = ''a'', output_st = [], userCount = 1, isRemoteUpdate = False,
       editorRef = Some ''a'', flag_timers = [], emitted = []\<rparr>"
  from leave_room_unhandled [of ?cl ?s "''A''"]
  have "emitted (leaveRoom ?cl) = emitted ?cl @ [Leave_room]"
    and "step ?s (Message ''A'' Leave_room) = (?s, [])" by blast+
  with m sr r show ?thesis by simp
qed

subsection \<open>One room per connection\<close>

text \<open>
  C8 (as the code has it). The join handler adds the socket to the group of the
  new room and overwrites its entry of the socket-to-room map; it removes the
  socket from no group. What holds is this: after every sequence of events in
  which each join is sent by a connection that has no other room recorded (the
  client shows its join controls only while it has not joined, and leaving
  reloads the page, which opens a new connection), each connection is a member
  of at most one group besides the group of its own id, and that group is the
  room recorded for it.
\<close>

theorem one_room_per_connection:
  assumes "disciplined init es"
  shows "one_room (run init es)
       \<and> (\<forall>c r. c \<in> set (members (run init es) r) \<and> r \<noteq> c \<longrightarrow>
             socketRoomMap (run init es) c = Some r)
       \<and> (\<forall>c r r'. set (members (run init es) r')
             \<subseteq> set (members (fst (step (run init es) (Message c (Join_room r)))) r'))"
proof -
  have "set (members s r') \<subseteq> set (members (fst (step s (Message c (Join_room r)))) r')"
    for s c r r'
    using dispatch_keeps [of s c "Join_room r"]
    by (cases "dispatch s c (Join_room r)") auto
  with recorded_run [OF recorded_init assms] recorded_one_room show ?thesis
    by (simp add: recorded_def)
qed

theorem one_room_per_connection_witness:
  "disciplined init [Connection ''A'', Message ''A'' (Join_room ''a''), Message ''A'' Leave_room,
                     Disconnect ''A'', Timeout, Connection ''A2'', Message ''A2'' (Join_room ''b'')]
   \<and> one_room (run init [Connection ''A'', Message ''A'' (Join_room ''a''), Message ''A'' Leave_room,
                     Disconnect ''A'', Timeout, Connection ''A2'', Message ''A2'' (Join_room ''b'')])"
proof -
  have d: "disciplined init [Connection ''A'', Message ''A'' (Join_room ''a''),
             Message ''A'' Leave_room, Disconnect ''A'', Timeout, Connection ''A2'',
             Message ''A2'' (Join_room ''b'')]"
    by (simp add: init_def transport_defs handler_defs Let_def)
  from one_room_per_connection [OF d] d show ?thesis by blast
qed

text \<open>
  C8 as stated fails on the server: a connection that sends a second join with
  another key is a member of both rooms afterwards.
\<close>

theorem one_room_per_connection_counterexample:
  "''A'' \<in> set (members (run init [Connection ''A'', Message ''A'' (Join_room ''a''),
                                   Message ''A'' (Join_room ''b'')]) ''a'')
   \<and> ''A'' \<in> set (members (run init [Connection ''A'', Message ''A'' (Join_room ''a''),
                                   Message ''A'' (Join_room ''b'')]) ''b'')
   \<and> \<not> one_room (run init [Connection ''A'', Message ''A'' (Join_room ''a''),
                                   Message ''A'' (Join_room ''b'')])"
proof -
  let ?s = "run init [Connection ''A'', Message ''A'' (Join_room ''a''),
                      Message ''A'' (Join_room ''b'')]"
  have a: "''A'' \<in> set (members ?s ''a'')" and b: "''A'' \<in> set (members ?s ''b'')"
    by (simp_all add: init_def transport_defs handler_defs Let_def)
  have "\<not> one_room ?s"
  proof
    assume "one_room ?s"
    with a b have "''a'' = ''b''" unfolding one_room_def by blast
    then show False by simp
  qed
  with a b show ?thesis by simp
qed

subsection \<open>The suppression flag of the client\<close>

text \<open>
  C7 (as the code has it). In a client whose editor is mounted, a forwarded
  edit that carries a delta is applied with the flag \<open>isRemoteUpdate\<close> set
  immediately before the one call of \<open>executeEdits\<close> and cleared immediately
  after it, inside the handler: when the handler returns the flag is clear, no
  timer has been added, the buffer holds the result of the edit operations and
  nothing has been emitted. A forwarded edit without delta and a snapshot sync
  replace the whole buffer with the flag set, emit nothing, and return with the
  flag still set: it is cleared by a timer callback, scheduled 50 ms later for
  the edit and 100 ms later for the snapshot.
\<close>

theorem remote_apply_flag_scope:
  assumes "editorRef c = Some b"
  shows "(isRemoteUpdate (on_receive_code w c cd (Some d)) = False
          \<and> flag_timers (on_receive_code w c cd (Some d)) = flag_timers c
          \<and> emitted (on_receive_code w c cd (Some d)) = emitted c
          \<and> editorRef (on_receive_code w c cd (Some d)) = Some (apply_ops w d b)
          \<and> code_st (on_receive_code w c cd (Some d)) = apply_ops w d b)
       \<and> (isRemoteUpdate (on_receive_code w c cd None) = True
          \<and> flag_timers (on_receive_code w c cd None) = flag_timers c @ [50]
          \<and> emitted (on_receive_code w c cd None) = emitted c
          \<and> editorRef (on_receive_code w c cd None) = Some cd
          \<and> code_st (on_receive_code w c cd None) = cd)
       \<and> (isRemoteUpdate (on_sync_state w c st) = True
          \<and> flag_timers (on_sync_state w c st) = flag_timers c @ [100]
          \<and> emitted (on_sync_state w c st) = emitted c
          \<and> editorRef (on_sync_state w c st) = Some (code st)
          \<and> code_st (on_sync_state w c st) = code st)
       \<and> isRemoteUpdate (on_flag_timer (on_receive_code w c cd None)) = False
       \<and> isRemoteUpdate (on_flag_timer (on_sync_state w c st)) = False"
  using assms by (simp add: client_defs Let_def split: list.splits)

theorem remote_apply_flag_scope_witness:
  "isRemoteUpdate (on_receive_code \<lparr>apply_ops = (\<lambda>d b. b @ d), replace_ops = (\<lambda>old new. new)\<rparr>
      \<lparr>roomId = ''r'', joined = True, language_st = ''javascript'', code_st = ''a'',
       output_st = [], userCount = 2, isRemoteUpdate = False, editorRef = Some ''a'',
       flag_timers = [], emitted = []\<rparr> ''ab'' (Some ''b'')) = False
   \<and> editorRef (on_receive_code \<lparr>apply_ops = (\<lambda>d b. b @ d), replace_ops = (\<lambda>old new. new)\<rparr>
      \<lparr>roomId = ''r'', joined = True, language_st = ''javascript'', code_st = ''a'',
       output_st = [], userCount = 2, isRemoteUpdate = False, editorRef = Some ''a'',
       flag_timers = [], emitted = []\<rparr> ''ab'' (Some ''b'')) = Some ''ab''
   \<and> emitted (on_receive_code \<lparr>apply_ops = (\<lambda>d b. b @ d), replace_ops = (\<lambda>old new. new)\<rparr>
      \<lparr>roomId = ''r'', joined = True, language_st = ''javascript'', code_st = ''a'',
       output_st = [], userCount = 2, isRemoteUpdate = False, editorRef = Some ''a'',
       flag_timers = [], emitted = []\<rparr> ''ab'' (Some ''b'')) = []"
proof -
  let ?w = "\<lparr>apply_ops = (\<lambda>d b. b @ d), replace_ops = (\<lambda>old new. new)\<rparr>"
  let ?c = "\<lparr>roomId = ''r'', joined = True, language_st = ''javascript'', code_st = ''a'',
       output_st = [], userCount = 2, isRemoteUpdate = False, editorRef = Some ''a'',
       flag_timers = [], emitted = []\<rparr>"
  have e: "editorRef ?c = Some ''a''" by simp
  from remote_apply_flag_scope [OF e, of ?w "''ab''" "''b''" default_room]
  show ?thesis by simp
qed

text \<open>
  C7 as stated fails for an edit without delta: when the handler has returned
  the flag is set and a timer is pending, and a change that the user makes to
  the buffer before the timer runs is not emitted.
\<close>

theorem remote_apply_flag_scope_counterexample:
  "isRemoteUpdate (on_receive_code \<lparr>apply_ops = (\<lambda>d b. b @ d), replace_ops = (\<lambda>old new. new)\<rparr>
      \<lparr>roomId = ''r'', joined = True, language_st = ''javascript'', code_st = ''a'',
       output_st = [], userCount = 2, isRemoteUpdate = False, editorRef = Some ''a'',
       flag_timers = [], emitted = []\<rparr> ''b'' None) = True
   \<and> flag_timers (on_receive_code \<lparr>apply_ops = (\<lambda>d b. b @ d), replace_ops = (\<lambda>old new. new)\<rparr>
      \<lparr>roomId = ''r'', joined = True, language_st = ''javascript'', code_st = ''a'',
       output_st = [], userCount = 2, isRemoteUpdate = False, editorRef = Some ''a'',
       flag_timers = [], emitted = []\<rparr> ''b'' None) = [50]
   \<and> emitted (onDidChangeModelContent
        ((on_receive_code \<lparr>apply_ops = (\<lambda>d b. b @ d), replace_ops = (\<lambda>old new. new)\<rparr>
      \<lparr>roomId = ''r'', joined = True, language_st = ''javascript'', code_st = ''a'',
       output_st = [], userCount = 2, isRemoteUpdate = False, editorRef = Some ''a'',
       flag_timers = [], emitted = []\<rparr> ''b'' None)\<lparr>editorRef := Some ''bc''\<rparr>) ''c'') = []"
  by (simp add: client_defs Let_def)

subsection \<open>Clearing the output\<close>

text \<open>
  C9, evaluated on the code. \<open>A\<close> and \<open>B\<close> are in room \<open>r\<close>, whose stored output
  is the default line. With the \<open>Clear\<close> handler of the shorter \<open>App\<close> component
  two clicks of \<open>A\<close> empty the output of \<open>A\<close> only: nothing is emitted, \<open>B\<close>
  receives nothing and the room store keeps the old output. With the handler
  of the other components the same two clicks reach \<open>B\<close> and empty the stored
  output.
\<close>

theorem clear_local_only:
  "output_st (clear_click_local (clear_click_local
      \<lparr>roomId = ''r'', joined = True, language_st = ''javascript'', code_st = ''a'',
       output_st = [''Ready to execute...''], userCount = 2, isRemoteUpdate = False,
       editorRef = Some ''a'', flag_timers = [], emitted = []\<rparr>)) = []
   \<and> emitted (clear_click_local (clear_click_local
      \<lparr>roomId = ''r'', joined = True, language_st = ''javascript'', code_st = ''a'',
       output_st = [''Ready to execute...''], userCount = 2, isRemoteUpdate = False,
       editorRef = Some ''a'', flag_timers = [], emitted = []\<rparr>)) = []
   \<and> snd (flush (run init [Connection ''A'', Message ''A'' (Join_room ''r''),
                           Connection ''B'', Message ''B'' (Join_room ''r'')]) ''A''
        (emitted (clear_click_local (clear_click_local
      \<lparr>roomId = ''r'', joined = True, language_st = ''javascript'', code_st = ''a'',
       output_st = [''Ready to execute...''], userCount = 2, isRemoteUpdate = False,
       editorRef = Some ''a'', flag_timers = [], emitted = []\<rparr>)))) = []
   \<and> map_option output (rooms (fst (flush (run init [Connection ''A'', Message ''A'' (Join_room ''r''),
                           Connection ''B'', Message ''B'' (Join_room ''r'')]) ''A''
        (emitted (clear_click_local (clear_click_local
      \<lparr>roomId = ''r'', joined = True, language_st = ''javascript'', code_st = ''a'',
       output_st = [''Ready to execute...''], userCount = 2, isRemoteUpdate = False,
       editorRef = Some ''a'', flag_timers = [], emitted = []\<rparr>))))) ''r'')
      = Some [''Ready to execute...'']
   \<and> snd (flush (run init [Connection ''A'', Message ''A'' (Join_room ''r''),
                           Connection ''B'', Message ''B'' (Join_room ''r'')]) ''A''
        (emitted (clear_click (clear_click
      \<lparr>roomId = ''r'', joined = True, language_st = ''javascript'', code_st = ''a'',
       output_st = [''Ready to execute...''], userCount = 2, isRemoteUpdate = False,
       editorRef = Some ''a'', flag_timers = [], emitted = []\<rparr>))))
      = [(''B'', Receive_output []), (''B'', Receive_output [])]
   \<and> map_option output (rooms (fst (flush (run init [Connection ''A'', Message ''A'' (Join_room ''r''),
                           Connection ''B'', Message ''B'' (Join_room ''r'')]) ''A''
        (emitted (clear_click (clear_click
      \<lparr>roomId = ''r'', joined = True, language_st = ''javascript'', code_st = ''a'',
       output_st = [''Ready to execute...''], userCount = 2, isRemoteUpdate = False,
       editorRef = Some ''a'', flag_timers = [], emitted = []\<rparr>))))) ''r'') = Some []"
  by (simp add: client_defs init_def transport_defs handler_defs Let_def default_room_def)

end
